theory Spec2Isabelle
  imports Main
begin

section \<open>Course task submission and status tracking (courseware/task_submit.py)\<close>

text \<open>
  A shallow embedding of \<^verbatim>\<open>lms/djangoapps/courseware/task_submit.py\<close>. The table of
  \<^verbatim>\<open>CourseTaskLog\<close> rows is an explicit list that every stateful function takes and
  returns; a raised exception is the \<open>Inl\<close> branch of a sum. Leading underscores of
  the Python names are dropped, since an identifier starts with a letter here. Calls
  to \<^verbatim>\<open>log.info\<close> and \<^verbatim>\<open>log.warning\<close> write no table row and return nothing; they are
  left out.
\<close>

subsection \<open>Python values\<close>

text \<open>
  The values that travel through the module: JSON scalars, JSON objects with scalar
  members (the progress dictionaries), and exception objects, which the executor hands
  back as the result of a failed task. Floating point numbers and nested containers
  are outside the model. An exception object is its class name and its
  \<^verbatim>\<open>message\<close> attribute, a string.
\<close>

datatype scalar = SNone | SBool bool | SInt int | SStr string

datatype json = JScalar scalar | JObj "(string \<times> scalar) list"

datatype pyval = Json json | Exc string string

datatype error =
    AlreadyRunningError
  | DoesNotExist
  | MultipleObjectsReturned
  | KeyError string
  | TypeError
  | AttributeError
  | ValueError
  | UnboundLocalError
  | Raised string

abbreviation PStr :: "string \<Rightarrow> pyval" where
  "PStr s \<equiv> Json (JScalar (SStr s))"

abbreviation PBool :: "bool \<Rightarrow> pyval" where
  "PBool b \<equiv> Json (JScalar (SBool b))"

abbreviation PNone :: pyval where
  "PNone \<equiv> Json (JScalar SNone)"

text \<open>Sequencing of fallible steps: the first exception ends the computation.\<close>

definition bind :: "error + 'a \<Rightarrow> ('a \<Rightarrow> error + 'b) \<Rightarrow> error + 'b" where
  "bind m f = (case m of Inl e \<Rightarrow> Inl e | Inr x \<Rightarrow> f x)"

subsection \<open>Strings: \<^verbatim>\<open>str\<close> and \<^verbatim>\<open>str.format\<close>\<close>

fun show_nat :: "nat \<Rightarrow> string" where
  "show_nat n =
     (if n < 10 then [''0123456789'' ! n]
      else show_nat (n div 10) @ [''0123456789'' ! (n mod 10)])"

declare show_nat.simps [simp del]

definition show_int :: "int \<Rightarrow> string" where
  "show_int i = (if i < 0 then CHR ''-'' # show_nat (nat (- i)) else show_nat (nat i))"

text \<open>\<^verbatim>\<open>str(x)\<close>, which is also what a plain replacement field of \<^verbatim>\<open>format\<close> inserts.\<close>

fun str_of :: "scalar \<Rightarrow> string" where
  "str_of SNone = ''None''"
| "str_of (SBool b) = (if b then ''True'' else ''False'')"
| "str_of (SInt i) = show_int i"
| "str_of (SStr s) = s"

text \<open>
  \<^verbatim>\<open>template.format(**kw)\<close> for the templates of this module, whose replacement fields
  are plain names in braces. The second argument is the field name read so far, when
  the scan is inside a field. A name that is not among the keyword arguments raises
  \<^verbatim>\<open>KeyError\<close>, a brace without its partner \<^verbatim>\<open>ValueError\<close>. Doubled braces,
  conversions and format specifications do not occur in the module's templates and
  are not modelled.
\<close>

fun format_from :: "(string \<rightharpoonup> scalar) \<Rightarrow> string option \<Rightarrow> string \<Rightarrow> error + string" where
  "format_from kw None [] = Inr []"
| "format_from kw (Some f) [] = Inl ValueError"
| "format_from kw None (c # cs) =
     (if c = CHR ''{'' then format_from kw (Some []) cs
      else if c = CHR ''}'' then Inl ValueError
      else bind (format_from kw None cs) (\<lambda>r. Inr (c # r)))"
| "format_from kw (Some f) (c # cs) =
     (if c = CHR ''}'' then
        (case kw f of
           None \<Rightarrow> Inl (KeyError f)
         | Some v \<Rightarrow> bind (format_from kw None cs) (\<lambda>r. Inr (str_of v @ r)))
      else format_from kw (Some (f @ [c])) cs)"

definition py_format :: "string \<Rightarrow> (string \<rightharpoonup> scalar) \<Rightarrow> error + string" where
  "py_format template kw = format_from kw None template"

subsection \<open>Encoding the task key\<close>

record user =
  user_id :: int
  username :: string

text \<open>
  \<^verbatim>\<open>_encode_problem_and_student_input(problem_url, student=None)\<close>. The student is a
  saved \<^verbatim>\<open>User\<close>, whose \<^verbatim>\<open>id\<close> is an integer.
\<close>

definition encode_problem_and_student_input ::
    "string \<Rightarrow> user option \<Rightarrow> error + (json \<times> string)" where
  "encode_problem_and_student_input problem_url student =
     (case student of
        Some st \<Rightarrow>
          bind (py_format ''{student}_{problem}''
                  [''student'' \<mapsto> SInt (user_id st), ''problem'' \<mapsto> SStr problem_url])
            (\<lambda>task_key.
               Inr (JObj [(''problem_url'', SStr problem_url), (''student'', SStr (username st))],
                    task_key))
      | None \<Rightarrow>
          bind (py_format ''{student}_{problem}''
                  [''student'' \<mapsto> SStr '''', ''problem'' \<mapsto> SStr problem_url])
            (\<lambda>task_key. Inr (JObj [(''problem_url'', SStr problem_url)], task_key)))"

subsection \<open>Python operators on the modelled values\<close>

text \<open>
  The module is Python 2 code (it reads \<^verbatim>\<open>exception.message\<close>), where values of
  different types compare without raising: \<^verbatim>\<open>None\<close> is below everything, numbers are
  below strings, and a boolean is the number 0 or 1.
\<close>

fun num_of :: "scalar \<Rightarrow> int option" where
  "num_of (SBool b) = Some (if b then 1 else 0)"
| "num_of (SInt i) = Some i"
| "num_of SNone = None"
| "num_of (SStr s) = None"

fun str_lt :: "string \<Rightarrow> string \<Rightarrow> bool" where
  "str_lt [] [] = False"
| "str_lt [] (y # ys) = True"
| "str_lt (x # xs) [] = False"
| "str_lt (x # xs) (y # ys) =
     ((of_char x :: nat) < of_char y \<or> (x = y \<and> str_lt xs ys))"

definition py_eq :: "scalar \<Rightarrow> scalar \<Rightarrow> bool" where
  "py_eq a b =
     (case (num_of a, num_of b) of
        (Some x, Some y) \<Rightarrow> x = y
      | (None, None) \<Rightarrow> a = b
      | _ \<Rightarrow> False)"

definition py_lt :: "scalar \<Rightarrow> scalar \<Rightarrow> bool" where
  "py_lt a b =
     (case (num_of a, num_of b) of
        (Some x, Some y) \<Rightarrow> x < y
      | (Some x, None) \<Rightarrow> b \<noteq> SNone
      | (None, Some y) \<Rightarrow> a = SNone
      | (None, None) \<Rightarrow>
          (case (a, b) of
             (SStr s, SStr t) \<Rightarrow> str_lt s t
           | (SNone, SStr t) \<Rightarrow> True
           | _ \<Rightarrow> False))"

text \<open>\<^verbatim>\<open>needle in haystack\<close> for two strings: the substring test.\<close>

fun str_contains :: "string \<Rightarrow> string \<Rightarrow> bool" where
  "str_contains needle [] = (needle = [])"
| "str_contains needle (c # cs) =
     (take (length needle) (c # cs) = needle \<or> str_contains needle cs)"

text \<open>
  \<^verbatim>\<open>key in value\<close>. A dictionary is asked for the key, a string for the substring. A
  Python 2 exception is iterated through its arguments, here the one message. The
  other values are not iterable.
\<close>

fun contains :: "string \<Rightarrow> pyval \<Rightarrow> error + bool" where
  "contains k (Json (JObj d)) = Inr (map_of d k \<noteq> None)"
| "contains k (Json (JScalar (SStr s))) = Inr (str_contains k s)"
| "contains k (Json (JScalar v)) = Inl TypeError"
| "contains k (Exc n m) = Inr (m = k)"

text \<open>\<^verbatim>\<open>value[key]\<close> with a string key.\<close>

fun getitem :: "pyval \<Rightarrow> string \<Rightarrow> error + scalar" where
  "getitem (Json (JObj d)) k = (case map_of d k of None \<Rightarrow> Inl (KeyError k) | Some v \<Rightarrow> Inr v)"
| "getitem (Json (JScalar v)) k = Inl TypeError"
| "getitem (Exc n m) k = Inl TypeError"

text \<open>\<^verbatim>\<open>value.get(key, None)\<close>, which only a dictionary has.\<close>

fun dict_get :: "json \<Rightarrow> string \<Rightarrow> error + scalar" where
  "dict_get (JObj d) k = Inr (case map_of d k of None \<Rightarrow> SNone | Some v \<Rightarrow> v)"
| "dict_get (JScalar v) k = Inl AttributeError"

text \<open>
  \<^verbatim>\<open>json.dumps\<close> and \<^verbatim>\<open>json.loads\<close>. A text column of the table is kept as the JSON
  value that its text encodes, so \<^verbatim>\<open>loads\<close> is the identity on a column and
  \<^verbatim>\<open>dumps\<close> accepts every value but an exception object.
\<close>

fun dumps :: "pyval \<Rightarrow> error + json" where
  "dumps (Json j) = Inr j"
| "dumps (Exc n m) = Inl TypeError"

subsection \<open>The table of course task logs\<close>

record course_task_log =
  entry_id :: nat
  course_id :: string
  task_type :: string
  task_key :: string
  task_input :: "json option"
  task_id :: "string option"
  task_state :: string
  task_output :: "json option"
  requester :: user

type_synonym store = "course_task_log list"

text \<open>\<^verbatim>\<open>celery.states.READY_STATES\<close>, the states in which a task has finished.\<close>

definition READY_STATES :: "string list" where
  "READY_STATES = [''SUCCESS'', ''FAILURE'', ''REVOKED'']"

text \<open>
  Modelled from the spec: the model class \<^verbatim>\<open>CourseTaskLog\<close> of
  \<^verbatim>\<open>courseware.models\<close>, which declares the columns and their defaults, is not among
  the sources. A created row receives an identity that no earlier row has, and the
  columns that \<^verbatim>\<open>create\<close> is not given (the executor's task id and the output) are
  absent until a later update.
\<close>

definition objects_create ::
    "string \<Rightarrow> string \<Rightarrow> string \<Rightarrow> json \<Rightarrow> string \<Rightarrow> user \<Rightarrow> store
      \<Rightarrow> course_task_log \<times> store" where
  "objects_create course_id' task_type' task_key' task_input' task_state' requester' store =
     (let course_task_log =
            \<lparr>entry_id = Suc (fold max (map entry_id store) 0),
             course_id = course_id',
             task_type = task_type',
             task_key = task_key',
             task_input = Some task_input',
             task_id = None,
             task_state = task_state',
             task_output = None,
             requester = requester'\<rparr>
      in (course_task_log, store @ [course_task_log]))"

text \<open>
  \<^verbatim>\<open>CourseTaskLog.objects.get(task_id=task_id)\<close>: the one row with that task id;
  \<^verbatim>\<open>DoesNotExist\<close> when there is none, \<^verbatim>\<open>MultipleObjectsReturned\<close> when there are more.
\<close>

definition objects_get :: "store \<Rightarrow> string \<Rightarrow> error + course_task_log" where
  "objects_get store task_id' =
     (case filter (\<lambda>r. task_id r = Some task_id') store of
        [] \<Rightarrow> Inl DoesNotExist
      | [r] \<Rightarrow> Inr r
      | _ \<Rightarrow> Inl MultipleObjectsReturned)"

text \<open>
  \<^verbatim>\<open>entry.save()\<close>: the row with the entry's identity is overwritten with the entry;
  an entry whose identity is not in the table is inserted.
\<close>

definition save :: "course_task_log \<Rightarrow> store \<Rightarrow> store" where
  "save entry store =
     (if entry_id entry \<in> set (map entry_id store)
      then map (\<lambda>r. if entry_id r = entry_id entry then entry else r) store
      else store @ [entry])"

subsection \<open>Reserving a task\<close>

definition task_is_running :: "string \<Rightarrow> string \<Rightarrow> string \<Rightarrow> store \<Rightarrow> bool" where
  "task_is_running course_id' task_type' task_key' store =
     (let runningTasks =
            filter (\<lambda>r. course_id r = course_id' \<and> task_type r = task_type' \<and> task_key r = task_key')
              store;
          runningTasks =
            fold (\<lambda>state tasks. filter (\<lambda>r. task_state r \<noteq> state) tasks) READY_STATES runningTasks
      in length runningTasks > 0)"

text \<open>
  \<^verbatim>\<open>_reserve_task\<close>. The task input is a JSON value, so \<^verbatim>\<open>json.dumps(task_input)\<close>
  is its column entry.
\<close>

definition reserve_task ::
    "string \<Rightarrow> string \<Rightarrow> string \<Rightarrow> json \<Rightarrow> user \<Rightarrow> store
      \<Rightarrow> (error + course_task_log) \<times> store" where
  "reserve_task course_id' task_type' task_key' task_input' requester' store =
     (if task_is_running course_id' task_type' task_key' store
      then (Inl AlreadyRunningError, store)
      else (case objects_create course_id' task_type' task_key' task_input' ''QUEUING''
                   requester' store of
              (course_task_log, store') \<Rightarrow> (Inr course_task_log, store')))"

subsection \<open>Folding an executor result into an entry\<close>

text \<open>
  What \<^verbatim>\<open>_update_course_task_log\<close> reads from a result object, once: the task id, the
  state, the result and the traceback.
\<close>

record task_result =
  result_task_id :: string
  result_state :: string
  returned_result :: pyval
  result_traceback :: "string option"

text \<open>
  \<^verbatim>\<open>_update_course_task_log(course_task_log_entry, task_result)\<close>. The Python mutates
  the entry in place and returns the output dictionary; here the updated entry is
  returned beside the output. The table is written only by the final \<^verbatim>\<open>save\<close>.
\<close>

definition update_course_task_log ::
    "course_task_log \<Rightarrow> task_result \<Rightarrow> store
      \<Rightarrow> (error + course_task_log \<times> (string \<rightharpoonup> pyval)) \<times> store" where
  "update_course_task_log course_task_log_entry task_result store =
     (let task_id' = result_task_id task_result;
          result_state' = result_state task_result;
          returned_result' = returned_result task_result;
          result_traceback' = result_traceback task_result;
          branch =
            (if result_state' = ''PROGRESS'' then
               bind (contains ''attempted'' returned_result') (\<lambda>has_attempted.
                 if has_attempted then
                   bind (getitem returned_result' ''attempted'') (\<lambda>attempted.
                   bind (getitem returned_result' ''updated'') (\<lambda>updated.
                   bind (getitem returned_result' ''total'') (\<lambda>total.
                   bind (getitem returned_result' ''action_name'') (\<lambda>action_name.
                   bind (py_format ''Attempted {attempted} of {total}, {action_name} {updated}''
                           [''attempted'' \<mapsto> attempted, ''updated'' \<mapsto> updated,
                            ''total'' \<mapsto> total, ''action_name'' \<mapsto> action_name])
                     (\<lambda>message.
                        Inr (course_task_log_entry, False,
                             [''message'' \<mapsto> PStr message,
                              ''task_progress'' \<mapsto> returned_result']))))))
                 else Inr (course_task_log_entry, False, [''task_progress'' \<mapsto> returned_result']))
             else if result_state' = ''SUCCESS'' then
               bind (dumps returned_result') (\<lambda>text.
                 Inr (course_task_log_entry\<lparr>task_output := Some text\<rparr>, False,
                      [''task_progress'' \<mapsto> returned_result']))
             else if result_state' = ''FAILURE'' then
               (case returned_result' of
                  Exc exception_name exception_message \<Rightarrow>
                    let task_progress =
                          [(''exception'', SStr exception_name),
                           (''message'', SStr exception_message)] @
                          (case result_traceback' of
                             None \<Rightarrow> []
                           | Some tb \<Rightarrow> [(''traceback'', SStr tb)]);
                        output = [''message'' \<mapsto> PStr exception_message];
                        output = (case result_traceback' of
                                    None \<Rightarrow> output
                                  | Some tb \<Rightarrow> output(''task_traceback'' \<mapsto> PStr tb))
                    in Inr (course_task_log_entry\<lparr>task_output := Some (JObj task_progress)\<rparr>, False,
                            output(''task_progress'' \<mapsto> Json (JObj task_progress)))
                | Json j \<Rightarrow> Inl AttributeError)
             else if result_state' = ''REVOKED'' then
               (let message = ''Task revoked before running'';
                    task_progress = [(''message'', SStr message)]
                in Inr (course_task_log_entry\<lparr>task_output := Some (JObj task_progress)\<rparr>, True,
                        [''message'' \<mapsto> PStr message,
                         ''task_progress'' \<mapsto> Json (JObj task_progress)]))
             else Inr (course_task_log_entry, False, Map.empty))
      in case branch of
           Inl err \<Rightarrow> (Inl err, store)
         | Inr (entry, entry_needs_saving, output) \<Rightarrow>
             let entry = (if result_state' \<noteq> task_state entry
                          then entry\<lparr>task_state := result_state', task_id := Some task_id'\<rparr>
                          else entry)
             in (Inr (entry, output), if entry_needs_saving then save entry store else store))"

text \<open>\<^verbatim>\<open>_update_task\<close>: fold the result in, then save the entry whatever the state.\<close>

definition update_task ::
    "course_task_log \<Rightarrow> task_result \<Rightarrow> store \<Rightarrow> (error + course_task_log) \<times> store" where
  "update_task course_task_log task_result store =
     (case update_course_task_log course_task_log task_result store of
        (Inl err, store') \<Rightarrow> (Inl err, store')
      | (Inr (entry, output), store') \<Rightarrow> (Inr entry, save entry store'))"

subsection \<open>The completion message\<close>

definition get_task_completion_message :: "course_task_log \<Rightarrow> error + bool \<times> scalar" where
  "get_task_completion_message course_task_log_entry =
     (case task_output course_task_log_entry of
        None \<Rightarrow> Inr (False, SStr ''No status information available'')
      | Some task_output' \<Rightarrow>
          if task_state course_task_log_entry \<in> set [''FAILURE'', ''REVOKED''] then
            bind (getitem (Json task_output') ''message'') (\<lambda>message. Inr (False, message))
          else
            bind (getitem (Json task_output') ''action_name'') (\<lambda>action_name.
            bind (getitem (Json task_output') ''attempted'') (\<lambda>num_attempted.
            bind (getitem (Json task_output') ''updated'') (\<lambda>num_updated.
            bind (getitem (Json task_output') ''total'') (\<lambda>num_total.
              case task_input course_task_log_entry of
                None \<Rightarrow> Inr (False, SStr ''No status information available'')
              | Some task_input' \<Rightarrow>
                  bind (dict_get task_input' ''problem_url'') (\<lambda>problem_url.
                  bind (dict_get task_input' ''student'') (\<lambda>student.
                    let (succeeded, msg) =
                          (if student \<noteq> SNone then
                             (if py_eq num_attempted (SInt 0) then
                                (False, Some (''Unable to find submission to be {action} for student '{student}'' @ [CHR 0x27]))
                              else if py_eq num_updated (SInt 0) then
                                (False, Some (''Problem failed to be {action} for student '{student}'' @ [CHR 0x27]))
                              else
                                (True, Some (''Problem successfully {action} for student '{student}'' @ [CHR 0x27])))
                           else if py_eq num_attempted (SInt 0) then
                             (False, Some ''Unable to find any students with submissions to be {action}'')
                           else if py_eq num_updated (SInt 0) then
                             (False, Some ''Problem failed to be {action} for any of {attempted} students'')
                           else if py_eq num_updated num_attempted then
                             (True, Some ''Problem successfully {action} for {attempted} students'')
                           else if py_lt num_updated num_attempted then
                             (False, Some ''Problem {action} for {updated} of {attempted} students'')
                           else (False, None));
                        msg = (if student \<noteq> SNone \<and> \<not> py_eq num_attempted num_total
                               then map_option (\<lambda>m. m @ '' (out of {total})'') msg
                               else msg)
                    in case msg of
                         None \<Rightarrow> Inl UnboundLocalError
                       | Some template \<Rightarrow>
                           bind (py_format template
                                   [''action'' \<mapsto> action_name, ''updated'' \<mapsto> num_updated,
                                    ''attempted'' \<mapsto> num_attempted, ''total'' \<mapsto> num_total,
                                    ''student'' \<mapsto> student, ''problem'' \<mapsto> problem_url])
                             (\<lambda>message. Inr (succeeded, SStr message)))))))))"

subsection \<open>The status of a task\<close>

text \<open>
  The executor's result backend gives, for a task id, what a result object shows when
  it is read. \<^verbatim>\<open>AsyncResult(task_id)\<close> is the result object for that id.
\<close>

definition AsyncResult :: "(string \<Rightarrow> task_result) \<Rightarrow> string \<Rightarrow> task_result" where
  "AsyncResult backend task_id' = (backend task_id')\<lparr>result_task_id := task_id'\<rparr>"

definition get_course_task_log_status ::
    "(string \<Rightarrow> task_result) \<Rightarrow> string \<Rightarrow> store
      \<Rightarrow> (error + (string \<rightharpoonup> pyval) option) \<times> store" where
  "get_course_task_log_status backend task_id' store =
     (case objects_get store task_id' of
        Inl err \<Rightarrow> (if err = DoesNotExist then (Inr None, store) else (Inl err, store))
      | Inr course_task_log_entry \<Rightarrow>
          (case (if task_state course_task_log_entry \<notin> set READY_STATES then
                   (case update_course_task_log course_task_log_entry
                           (AsyncResult backend task_id') store of
                      (Inl err, store') \<Rightarrow> (Inl err, store')
                    | (Inr (entry, output), store') \<Rightarrow> (Inr (entry, Map.empty ++ output), store'))
                 else
                   (Inr (course_task_log_entry,
                         case task_output course_task_log_entry of
                           None \<Rightarrow> Map.empty
                         | Some text \<Rightarrow> [''task_progress'' \<mapsto> Json text]),
                    store)) of
             (Inl err, store') \<Rightarrow> (Inl err, store')
           | (Inr (entry, status), store') \<Rightarrow>
               let status = status
                     (''task_id'' \<mapsto> (case task_id entry of None \<Rightarrow> PNone | Some t \<Rightarrow> PStr t),
                      ''task_state'' \<mapsto> PStr (task_state entry),
                      ''in_progress'' \<mapsto> PBool (task_state entry \<notin> set READY_STATES))
               in if task_state entry \<in> set READY_STATES then
                    (case get_task_completion_message entry of
                       Inl err \<Rightarrow> (Inl err, store')
                     | Inr (succeeded, message) \<Rightarrow>
                         (Inr (Some (status(''message'' \<mapsto> Json (JScalar message),
                                            ''succeeded'' \<mapsto> PBool succeeded))),
                          store'))
                  else (Inr (Some status), store')))"

subsection \<open>Submitting a task\<close>

record request =
  request_user :: user
  META :: "(string \<times> string) list"

record xmodule_instance_args =
  xqueue_callback_url_prefix :: string
  request_info :: "(string \<times> string) list"

text \<open>
  \<^verbatim>\<open>_get_xmodule_instance_args(request)\<close>. \<^verbatim>\<open>get_xqueue_callback_url_prefix\<close> belongs
  to \<^verbatim>\<open>courseware.module_render\<close> and is a parameter.
\<close>

definition get_xmodule_instance_args ::
    "(request \<Rightarrow> error + string) \<Rightarrow> request \<Rightarrow> error + xmodule_instance_args" where
  "get_xmodule_instance_args get_xqueue_callback_url_prefix request =
     (case map_of (META request) ''REMOTE_ADDR'' of
        None \<Rightarrow> Inl (KeyError ''REMOTE_ADDR'')
      | Some ip \<Rightarrow>
          (case map_of (META request) ''SERVER_NAME'' of
             None \<Rightarrow> Inl (KeyError ''SERVER_NAME'')
           | Some host \<Rightarrow>
               bind (get_xqueue_callback_url_prefix request) (\<lambda>prefix.
                 Inr \<lparr>xqueue_callback_url_prefix = prefix,
                      request_info =
                        [(''username'', username (request_user request)),
                         (''ip'', ip),
                         (''agent'', (case map_of (META request) ''HTTP_USER_AGENT'' of
                                        None \<Rightarrow> [] | Some agent \<Rightarrow> agent)),
                         (''host'', host)]\<rparr>)))"

type_synonym task_args = "nat \<times> string \<times> json \<times> xmodule_instance_args"

text \<open>
  \<^verbatim>\<open>_submit_task\<close>. The task class is its \<^verbatim>\<open>apply_async\<close>, the dispatch to the
  executor, which returns a result object or raises.
\<close>

definition submit_task ::
    "(request \<Rightarrow> error + string) \<Rightarrow> request \<Rightarrow> string \<Rightarrow> (task_args \<Rightarrow> error + task_result)
      \<Rightarrow> string \<Rightarrow> json \<Rightarrow> string \<Rightarrow> store \<Rightarrow> (error + course_task_log) \<times> store" where
  "submit_task get_xqueue_callback_url_prefix request task_type' apply_async course_id'
       task_input' task_key' store =
     (case reserve_task course_id' task_type' task_key' task_input' (request_user request) store of
        (Inl err, store') \<Rightarrow> (Inl err, store')
      | (Inr course_task_log, store') \<Rightarrow>
          (case get_xmodule_instance_args get_xqueue_callback_url_prefix request of
             Inl err \<Rightarrow> (Inl err, store')
           | Inr xmodule_instance_args' \<Rightarrow>
               (case apply_async (entry_id course_task_log, course_id', task_input',
                                  xmodule_instance_args') of
                  Inl err \<Rightarrow> (Inl err, store')
                | Inr task_result \<Rightarrow> update_task course_task_log task_result store')))"

text \<open>
  The operations of the module that can write the table: a submission (each of the
  four \<^verbatim>\<open>submit_\<close> functions checks its arguments against the module store and calls
  \<^verbatim>\<open>_submit_task\<close>) and a status request.
\<close>

inductive module_step :: "store \<Rightarrow> store \<Rightarrow> bool" where
  submit:
    "snd (submit_task get_xqueue_callback_url_prefix request task_type' apply_async course_id'
            task_input' task_key' store) = store'
     \<Longrightarrow> module_step store store'"
| status:
    "snd (get_course_task_log_status backend task_id' store) = store'
     \<Longrightarrow> module_step store store'"

subsection \<open>Sample rows\<close>

definition sample_user :: user where
  "sample_user = \<lparr>user_id = 7, username = ''S7''\<rparr>"

definition done_entry :: course_task_log where
  "done_entry =
     \<lparr>entry_id = 1, course_id = ''c'', task_type = ''rescore_problem'', task_key = ''_p'',
      task_input = Some (JObj [(''problem_url'', SStr ''p'')]), task_id = Some ''t1'',
      task_state = ''SUCCESS'', task_output = None, requester = sample_user\<rparr>"

text \<open>
  A finished bulk rescoring of five students, a finished task for the student S7 whose
  output counts one update and no attempt, and a finished bulk task whose output counts
  more updates than attempts.
\<close>

definition rescored :: "int \<Rightarrow> int \<Rightarrow> int \<Rightarrow> json" where
  "rescored a u t =
     JObj [(''action_name'', SStr ''rescored''), (''attempted'', SInt a), (''updated'', SInt u),
           (''total'', SInt t)]"

definition bulk_success_entry :: course_task_log where
  "bulk_success_entry = done_entry\<lparr>task_output := Some (rescored 5 5 5)\<rparr>"

definition student_zero_entry :: course_task_log where
  "student_zero_entry =
     done_entry\<lparr>task_key := ''7_p'',
                 task_input := Some (JObj [(''problem_url'', SStr ''p''), (''student'', SStr ''S7'')]),
                 task_output := Some (rescored 0 1 1)\<rparr>"

definition over_entry :: course_task_log where
  "over_entry = done_entry\<lparr>task_output := Some (rescored 1 2 2)\<rparr>"

text \<open>A result backend in which every task is still pending.\<close>

definition pending_backend :: "string \<Rightarrow> task_result" where
  "pending_backend tid =
     \<lparr>result_task_id = tid, result_state = ''PENDING'', returned_result = PNone,
      result_traceback = None\<rparr>"

text \<open>
  A dispatched task that has not finished, a backend in which every task has succeeded
  with five of five students rescored, one in which every task was revoked, and a
  finished task that returned nothing, so that its output column holds \<^verbatim>\<open>null\<close>.
\<close>

definition pending_entry :: course_task_log where
  "pending_entry = done_entry\<lparr>task_state := ''PENDING''\<rparr>"

definition success_backend :: "string \<Rightarrow> task_result" where
  "success_backend tid =
     \<lparr>result_task_id = tid, result_state = ''SUCCESS'', returned_result = Json (rescored 5 5 5),
      result_traceback = None\<rparr>"

definition revoked_backend :: "string \<Rightarrow> task_result" where
  "revoked_backend tid =
     \<lparr>result_task_id = tid, result_state = ''REVOKED'', returned_result = PNone,
      result_traceback = None\<rparr>"

definition null_output_entry :: course_task_log where
  "null_output_entry = done_entry\<lparr>task_output := Some (JScalar SNone)\<rparr>"

text \<open>
  A request of the sample user, a callback prefix, a dispatch that fails with a broker
  error, and the row that a reservation appends to a table holding \<open>done_entry\<close>.
\<close>

definition sample_request :: request where
  "sample_request =
     \<lparr>request_user = sample_user,
      META = [(''REMOTE_ADDR'', ''10.0.0.1''), (''SERVER_NAME'', ''lms'')]\<rparr>"

definition sample_prefix :: "request \<Rightarrow> error + string" where
  "sample_prefix r = Inr ''https://lms''"

definition failing_dispatch :: "task_args \<Rightarrow> error + task_result" where
  "failing_dispatch args = Inl (Raised ''ConnectionError'')"

definition queued_entry :: course_task_log where
  "queued_entry =
     \<lparr>entry_id = 2, course_id = ''c'', task_type = ''rescore_problem'', task_key = ''_p'',
      task_input = Some (JObj [(''problem_url'', SStr ''p'')]), task_id = None,
      task_state = ''QUEUING'', task_output = None, requester = sample_user\<rparr>"

section \<open>Properties\<close>

subsection \<open>Formatting\<close>

lemma show_nat_nonempty: "show_nat n \<noteq> []"
  by (subst show_nat.simps) simp

lemma show_int_nonempty: "show_int i \<noteq> []"
  by (simp add: show_int_def show_nat_nonempty)

lemma format_key:
  "py_format ''{student}_{problem}'' [''student'' \<mapsto> s, ''problem'' \<mapsto> SStr p]
     = Inr (str_of s @ ''_'' @ p)"
  by (simp add: py_format_def bind_def)

subsection \<open>The task key\<close>

text \<open>
  C9. The encoding is a function of the problem URL and the student alone: with a
  student the key is the student's id, an underscore and the URL, without one it is
  the underscore and the URL. For every URL and every student the two keys differ.
\<close>

theorem encode_key_student_differs:
  "encode_problem_and_student_input problem_url (Some student) =
     Inr (JObj [(''problem_url'', SStr problem_url), (''student'', SStr (username student))],
          show_int (user_id student) @ ''_'' @ problem_url)
   \<and> encode_problem_and_student_input problem_url None =
     Inr (JObj [(''problem_url'', SStr problem_url)], ''_'' @ problem_url)
   \<and> map_sum id snd (encode_problem_and_student_input problem_url (Some student))
       \<noteq> map_sum id snd (encode_problem_and_student_input problem_url None)"
  by (simp add: encode_problem_and_student_input_def format_key bind_def show_int_nonempty)

subsection \<open>Reservation\<close>

lemma fold_max_ge: "a \<le> fold max xs (a::nat)"
  by (induction xs arbitrary: a) (auto intro: order_trans [OF max.cobounded2])

lemma fold_max_mem: "x \<in> set xs \<Longrightarrow> x \<le> fold max xs (a::nat)"
proof (induction xs arbitrary: a)
  case Nil
  then show ?case by simp
next
  case (Cons y ys)
  show ?case
  proof (cases "x = y")
    case True
    have "y \<le> max y a" by simp
    also have "\<dots> \<le> fold max ys (max y a)" by (rule fold_max_ge)
    finally show ?thesis using True by simp
  next
    case False
    with Cons show ?thesis by simp
  qed
qed

lemma fresh_entry_id: "Suc (fold max (map entry_id store) 0) \<notin> set (map entry_id store)"
proof
  assume "Suc (fold max (map entry_id store) 0) \<in> set (map entry_id store)"
  then have "Suc (fold max (map entry_id store) 0) \<le> fold max (map entry_id store) 0"
    by (rule fold_max_mem)
  then show False by simp
qed

lemma task_is_running_iff:
  "task_is_running c t k store \<longleftrightarrow>
     (\<exists>r \<in> set store. course_id r = c \<and> task_type r = t \<and> task_key r = k
        \<and> task_state r \<notin> {''SUCCESS'', ''FAILURE'', ''REVOKED''})"
proof -
  have "task_is_running c t k store \<longleftrightarrow>
          filter (\<lambda>r. task_state r \<noteq> ''REVOKED'')
            (filter (\<lambda>r. task_state r \<noteq> ''FAILURE'')
              (filter (\<lambda>r. task_state r \<noteq> ''SUCCESS'')
                (filter (\<lambda>r. course_id r = c \<and> task_type r = t \<and> task_key r = k) store))) \<noteq> []"
    by (simp add: task_is_running_def READY_STATES_def)
  also have "\<dots> \<longleftrightarrow> (\<exists>r \<in> set store. course_id r = c \<and> task_type r = t \<and> task_key r = k
        \<and> task_state r \<notin> {''SUCCESS'', ''FAILURE'', ''REVOKED''})"
    by (auto simp: filter_empty_conv)
  finally show ?thesis .
qed

text \<open>
  C1. When the table holds a row with the same course, task type and task key whose
  state is none of SUCCESS, FAILURE and REVOKED, \<^verbatim>\<open>_reserve_task\<close> raises
  \<^verbatim>\<open>AlreadyRunningError\<close> and leaves the table as it was. Otherwise, also when rows
  with that key exist and all have finished, it appends exactly one row, with a new
  identity, the given key and input, state QUEUING and no task id, and returns it.
\<close>

theorem reserve_task_already_running_or_queued:
  "if (\<exists>r \<in> set store. course_id r = c \<and> task_type r = t \<and> task_key r = k
          \<and> task_state r \<notin> {''SUCCESS'', ''FAILURE'', ''REVOKED''})
   then reserve_task c t k input u store = (Inl AlreadyRunningError, store)
   else (\<exists>e. reserve_task c t k input u store = (Inr e, store @ [e])
            \<and> entry_id e \<notin> set (map entry_id store)
            \<and> course_id e = c \<and> task_type e = t \<and> task_key e = k
            \<and> task_input e = Some input \<and> requester e = u
            \<and> task_state e = ''QUEUING'' \<and> task_id e = None \<and> task_output e = None)"
proof (cases "task_is_running c t k store")
  case True
  then show ?thesis
    using task_is_running_iff [of c t k store] by (simp add: reserve_task_def)
next
  case False
  then show ?thesis
    using task_is_running_iff [of c t k store] fresh_entry_id [of store]
    by (simp add: reserve_task_def objects_create_def Let_def del: set_map)
qed

theorem reserve_task_witness:
  "reserve_task ''c'' ''rescore_problem'' ''_p'' (JObj []) sample_user
       [done_entry\<lparr>task_state := ''PENDING''\<rparr>]
     = (Inl AlreadyRunningError, [done_entry\<lparr>task_state := ''PENDING''\<rparr>])
   \<and> (\<exists>e. reserve_task ''c'' ''rescore_problem'' ''_p'' (JObj []) sample_user [done_entry]
            = (Inr e, [done_entry, e])
          \<and> task_state e = ''QUEUING'' \<and> task_id e = None)"
proof
  show "reserve_task ''c'' ''rescore_problem'' ''_p'' (JObj []) sample_user
          [done_entry\<lparr>task_state := ''PENDING''\<rparr>]
        = (Inl AlreadyRunningError, [done_entry\<lparr>task_state := ''PENDING''\<rparr>])"
    using reserve_task_already_running_or_queued
            [of "[done_entry\<lparr>task_state := ''PENDING''\<rparr>]"
                "''c''" "''rescore_problem''" "''_p''" "JObj []" sample_user]
    by (simp add: done_entry_def)
next
  have "\<exists>e. reserve_task ''c'' ''rescore_problem'' ''_p'' (JObj []) sample_user [done_entry]
              = (Inr e, [done_entry] @ [e])
            \<and> entry_id e \<notin> set (map entry_id [done_entry])
            \<and> course_id e = ''c'' \<and> task_type e = ''rescore_problem'' \<and> task_key e = ''_p''
            \<and> task_input e = Some (JObj []) \<and> requester e = sample_user
            \<and> task_state e = ''QUEUING'' \<and> task_id e = None \<and> task_output e = None"
    using reserve_task_already_running_or_queued
            [of "[done_entry]" "''c''" "''rescore_problem''" "''_p''" "JObj []" sample_user]
    by (simp add: done_entry_def)
  then show "\<exists>e. reserve_task ''c'' ''rescore_problem'' ''_p'' (JObj []) sample_user [done_entry]
                = (Inr e, [done_entry, e])
              \<and> task_state e = ''QUEUING'' \<and> task_id e = None"
    by auto
qed

subsection \<open>The completion message\<close>

lemma py_eq_int [simp]: "py_eq (SInt a) (SInt b) \<longleftrightarrow> a = b"
  by (simp add: py_eq_def)

lemma py_lt_int [simp]: "py_lt (SInt a) (SInt b) \<longleftrightarrow> a < b"
  by (simp add: py_lt_def)

text \<open>
  C10. For a SUCCESS entry whose input names no student and whose output counts
  \<open>attempted > 0\<close>, \<open>updated > 0\<close> and \<open>updated > attempted\<close>, none of the branches
  assigns \<^verbatim>\<open>msg\<close>, and \<^verbatim>\<open>get_task_completion_message\<close> raises at the final
  \<^verbatim>\<open>msg.format\<close> instead of returning a pair.
\<close>

theorem completion_message_unbound:
  assumes "task_state e = ''SUCCESS''"
    and "task_output e = Some (JObj out)"
    and "map_of out ''action_name'' = Some action"
    and "map_of out ''attempted'' = Some (SInt a)"
    and "map_of out ''updated'' = Some (SInt u)"
    and "map_of out ''total'' = Some tot"
    and "task_input e = Some (JObj inp)"
    and "map_of inp ''student'' = None"
    and "0 < a" and "0 < u" and "a < u"
  shows "get_task_completion_message e = Inl UnboundLocalError"
  using assms by (simp add: get_task_completion_message_def bind_def)

theorem completion_message_unbound_witness:
  "get_task_completion_message over_entry = Inl UnboundLocalError"
  using completion_message_unbound
          [of over_entry
              "[(''action_name'', SStr ''rescored''), (''attempted'', SInt 1), (''updated'', SInt 2),
                (''total'', SInt 2)]"
              "SStr ''rescored''" 1 2 "SInt 2" "[(''problem_url'', SStr ''p'')]"]
  by (simp add: over_entry_def done_entry_def rescored_def)

text \<open>
  C7. For a finished entry without output, \<^verbatim>\<open>get_task_completion_message\<close> returns
  not succeeded and the message "No status information available", and a status
  request that finds the entry returns its status with these two values; neither
  raises.
\<close>

theorem missing_output_no_crash:
  assumes "task_state e \<in> set READY_STATES" and "task_output e = None"
  shows "get_task_completion_message e = Inr (False, SStr ''No status information available'')
       \<and> (\<forall>backend tid store. objects_get store tid = Inr e \<longrightarrow>
            get_course_task_log_status backend tid store =
              (Inr (Some [''task_id'' \<mapsto> (case task_id e of None \<Rightarrow> PNone | Some t \<Rightarrow> PStr t),
                          ''task_state'' \<mapsto> PStr (task_state e),
                          ''in_progress'' \<mapsto> PBool False,
                          ''message'' \<mapsto> PStr ''No status information available'',
                          ''succeeded'' \<mapsto> PBool False]), store))"
  using assms by (simp add: get_task_completion_message_def get_course_task_log_status_def)

theorem missing_output_no_crash_witness:
  "get_task_completion_message done_entry = Inr (False, SStr ''No status information available'')
   \<and> get_course_task_log_status pending_backend ''t1'' [done_entry] =
       (Inr (Some [''task_id'' \<mapsto> PStr ''t1'',
                   ''task_state'' \<mapsto> PStr ''SUCCESS'',
                   ''in_progress'' \<mapsto> PBool False,
                   ''message'' \<mapsto> PStr ''No status information available'',
                   ''succeeded'' \<mapsto> PBool False]), [done_entry])"
proof -
  have "task_state done_entry \<in> set READY_STATES" and "task_output done_entry = None"
    and "objects_get [done_entry] ''t1'' = Inr done_entry"
    and "task_id done_entry = Some ''t1''" and "task_state done_entry = ''SUCCESS''"
    by (simp_all add: done_entry_def READY_STATES_def objects_get_def)
  then show ?thesis
    using missing_output_no_crash [of done_entry] by simp
qed

text \<open>
  C6, as the code has it. For a SUCCESS entry with integer counters such that
  \<open>0 \<le> updated \<le> attempted\<close>: the task succeeded exactly when a student is named and
  \<open>updated > 0\<close>, or no student is named, \<open>attempted > 0\<close> and \<open>updated = attempted\<close>;
  the message is the template of the case with its fields filled in, and the messages
  for a student end in " (out of \<open>total\<close>)" exactly when \<open>attempted \<noteq> total\<close>.
\<close>

theorem completion_message_success:
  assumes "task_state e = ''SUCCESS''"
    and "task_output e = Some (JObj out)"
    and "map_of out ''action_name'' = Some action"
    and "map_of out ''attempted'' = Some (SInt a)"
    and "map_of out ''updated'' = Some (SInt u)"
    and "map_of out ''total'' = Some (SInt t)"
    and "task_input e = Some (JObj inp)"
    and "student = (case map_of inp ''student'' of None \<Rightarrow> SNone | Some s \<Rightarrow> s)"
    and "0 \<le> u" and "u \<le> a"
  shows "get_task_completion_message e =
     Inr ((student \<noteq> SNone \<and> 0 < u) \<or> (student = SNone \<and> 0 < a \<and> u = a),
          SStr (if student \<noteq> SNone then
                  (if a = 0 then
                     ''Unable to find submission to be '' @ str_of action @ '' for student ''
                       @ [CHR 0x27] @ str_of student @ [CHR 0x27]
                   else if u = 0 then
                     ''Problem failed to be '' @ str_of action @ '' for student ''
                       @ [CHR 0x27] @ str_of student @ [CHR 0x27]
                   else
                     ''Problem successfully '' @ str_of action @ '' for student ''
                       @ [CHR 0x27] @ str_of student @ [CHR 0x27])
                  @ (if a \<noteq> t then '' (out of '' @ show_int t @ '')'' else [])
                else if a = 0 then
                  ''Unable to find any students with submissions to be '' @ str_of action
                else if u = 0 then
                  ''Problem failed to be '' @ str_of action @ '' for any of '' @ show_int a
                    @ '' students''
                else if u = a then
                  ''Problem successfully '' @ str_of action @ '' for '' @ show_int a
                    @ '' students''
                else
                  ''Problem '' @ str_of action @ '' for '' @ show_int u @ '' of '' @ show_int a
                    @ '' students''))"
  using assms
  by (auto simp: get_task_completion_message_def bind_def py_format_def split: option.splits)

theorem completion_message_success_witness:
  "get_task_completion_message bulk_success_entry =
     Inr (True, SStr ''Problem successfully rescored for 5 students'')"
  using completion_message_success
          [of bulk_success_entry
              "[(''action_name'', SStr ''rescored''), (''attempted'', SInt 5), (''updated'', SInt 5),
                (''total'', SInt 5)]"
              "SStr ''rescored''" 5 5 5 "[(''problem_url'', SStr ''p'')]" SNone]
  by (simp add: bulk_success_entry_def done_entry_def rescored_def show_int_def show_nat.simps)

text \<open>
  The claim as written fails: the entry for student S7 counts one update, and the task
  did not succeed, because no submission was attempted.
\<close>

theorem completion_message_zero_attempted:
  "get_task_completion_message student_zero_entry =
     Inr (False, SStr (''Unable to find submission to be rescored for student 'S7''
                        @ [CHR 0x27] @ '' (out of 1)''))"
  by (simp add: student_zero_entry_def done_entry_def rescored_def get_task_completion_message_def
        bind_def py_format_def show_int_def show_nat.simps)

subsection \<open>Writes of the table\<close>

lemma update_revoked:
  assumes "result_state tr = ''REVOKED''" and "task_state e \<noteq> ''REVOKED''"
  shows "update_course_task_log e tr s =
     (Inr (e\<lparr>task_output := Some (JObj [(''message'', SStr ''Task revoked before running'')]),
              task_state := ''REVOKED'', task_id := Some (result_task_id tr)\<rparr>,
           [''message'' \<mapsto> PStr ''Task revoked before running'',
            ''task_progress'' \<mapsto> Json (JObj [(''message'', SStr ''Task revoked before running'')])]),
      save (e\<lparr>task_output := Some (JObj [(''message'', SStr ''Task revoked before running'')]),
                task_state := ''REVOKED'', task_id := Some (result_task_id tr)\<rparr>) s)"
  using assms by (simp add: update_course_task_log_def Let_def)

lemma update_not_revoked:
  assumes "result_state tr \<noteq> ''REVOKED''"
  shows "\<exists>r. update_course_task_log e tr s = (r, s)
     \<and> (\<forall>e' out. r = Inr (e', out) \<longrightarrow> entry_id e' = entry_id e \<and> task_state e' = result_state tr)"
proof -
  consider (progress) "result_state tr = ''PROGRESS''"
    | (success) "result_state tr = ''SUCCESS''"
    | (failure) "result_state tr = ''FAILURE''"
    | (other) "result_state tr \<noteq> ''PROGRESS''" "result_state tr \<noteq> ''SUCCESS''"
        "result_state tr \<noteq> ''FAILURE''"
    by blast
  then show ?thesis
  proof cases
    case progress
    then show ?thesis
      by (auto simp: update_course_task_log_def Let_def bind_def split: sum.splits)
  next
    case success
    then show ?thesis
      by (auto simp: update_course_task_log_def Let_def bind_def split: sum.splits)
  next
    case failure
    then show ?thesis
      by (auto simp: update_course_task_log_def Let_def split: pyval.splits option.splits)
  next
    case other
    with assms show ?thesis
      by (auto simp: update_course_task_log_def Let_def)
  qed
qed

lemma update_shape:
  "\<exists>r s'. update_course_task_log e tr s = (r, s')
     \<and> (s' = s \<or> (\<exists>x. entry_id x = entry_id e \<and> s' = save x s))
     \<and> (\<forall>e' out. r = Inr (e', out) \<longrightarrow> entry_id e' = entry_id e)"
proof (cases "result_state tr = ''REVOKED''")
  case True
  define x where "x =
    (let e' = e\<lparr>task_output := Some (JObj [(''message'', SStr ''Task revoked before running'')])\<rparr>
     in if ''REVOKED'' \<noteq> task_state e
        then e'\<lparr>task_state := ''REVOKED'', task_id := Some (result_task_id tr)\<rparr> else e')"
  have "entry_id x = entry_id e"
    by (simp add: x_def Let_def)
  moreover have "\<exists>out. update_course_task_log e tr s = (Inr (x, out), save x s)"
    using True by (simp add: update_course_task_log_def x_def Let_def)
  ultimately show ?thesis by force
next
  case False
  from update_not_revoked [OF this, of e s] show ?thesis by auto
qed

lemma objects_get_Inr:
  "objects_get s tid = Inr f \<Longrightarrow> filter (\<lambda>r. task_id r = Some tid) s = [f]"
  by (auto simp: objects_get_def split: list.splits)

lemma objects_get_mem:
  assumes "objects_get s tid = Inr f"
  shows "f \<in> set s" and "task_id f = Some tid"
proof -
  have "f \<in> set (filter (\<lambda>r. task_id r = Some tid) s)"
    using objects_get_Inr [OF assms] by simp
  then show "f \<in> set s" and "task_id f = Some tid" by simp_all
qed

lemma save_present:
  "f \<in> set s \<Longrightarrow> entry_id x = entry_id f \<Longrightarrow>
   save x s = map (\<lambda>r. if entry_id r = entry_id x then x else r) s"
  by (auto simp: save_def)

lemma save_keeps:
  "e \<in> set s \<Longrightarrow> entry_id x \<noteq> entry_id e \<Longrightarrow> e \<in> set (save x s)"
  by (force simp: save_def)

lemma save_distinct:
  assumes "distinct (map entry_id s)"
  shows "distinct (map entry_id (save x s))"
proof (cases "entry_id x \<in> set (map entry_id s)")
  case True
  have eq: "map entry_id (map (\<lambda>r. if entry_id r = entry_id x then x else r) s) = map entry_id s"
    by (induction s) auto
  have "save x s = map (\<lambda>r. if entry_id r = entry_id x then x else r) s"
    using True by (simp add: save_def del: set_map)
  then show ?thesis
    using assms by (simp only: eq)
next
  case False
  with assms show ?thesis by (simp add: save_def)
qed

lemma distinct_ids_neq:
  "distinct (map entry_id s) \<Longrightarrow> e \<in> set s \<Longrightarrow> f \<in> set s \<Longrightarrow> e \<noteq> f \<Longrightarrow> entry_id e \<noteq> entry_id f"
  by (auto simp: distinct_map dest: inj_onD)

lemma filter_save:
  assumes d: "distinct (map entry_id s)" and f: "filter P s = [f]"
    and x: "entry_id x = entry_id f" "P x"
  shows "filter P (save x s) = [x]"
proof -
  let ?g = "\<lambda>r. if entry_id r = entry_id x then x else r"
  have "f \<in> set (filter P s)"
    using f by simp
  then have fs: "f \<in> set s" and Pf: "P f"
    by simp_all
  have "\<And>r. r \<in> set s \<Longrightarrow> (P \<circ> ?g) r = P r"
  proof -
    fix r assume r: "r \<in> set s"
    show "(P \<circ> ?g) r = P r"
    proof (cases "r = f")
      case True
      with x Pf show ?thesis by simp
    next
      case False
      with distinct_ids_neq [OF d r fs] x show ?thesis by simp
    qed
  qed
  then have "filter (P \<circ> ?g) s = filter P s"
    by (intro filter_cong) auto
  then have "filter P (map ?g s) = map ?g [f]"
    using f by (simp add: filter_map)
  then show ?thesis
    using x by (simp add: save_present [OF fs x(1)])
qed

lemma objects_get_save:
  assumes "distinct (map entry_id s)" and "objects_get s tid = Inr f"
    and "entry_id x = entry_id f" and "task_id x = Some tid"
  shows "objects_get (save x s) tid = Inr x"
  using filter_save [OF assms(1) objects_get_Inr [OF assms(2)] assms(3), of ] assms(4)
  by (simp add: objects_get_def)

subsection \<open>Status requests\<close>

lemma AsyncResult_simps [simp]:
  "result_task_id (AsyncResult backend tid) = tid"
  "result_state (AsyncResult backend tid) = result_state (backend tid)"
  by (simp_all add: AsyncResult_def)

lemma not_ready_not_revoked: "st \<notin> set READY_STATES \<Longrightarrow> st \<noteq> ''REVOKED''"
  by (auto simp: READY_STATES_def)

lemma status_terminal:
  assumes "objects_get store tid = Inr e" and "task_state e \<in> set READY_STATES"
  shows "get_course_task_log_status backend tid store =
     (case get_task_completion_message e of
        Inl err \<Rightarrow> (Inl err, store)
      | Inr (succeeded, message) \<Rightarrow>
          (Inr (Some ((case task_output e of
                         None \<Rightarrow> Map.empty
                       | Some text \<Rightarrow> [''task_progress'' \<mapsto> Json text])
                      (''task_id'' \<mapsto> (case task_id e of None \<Rightarrow> PNone | Some t \<Rightarrow> PStr t),
                       ''task_state'' \<mapsto> PStr (task_state e),
                       ''in_progress'' \<mapsto> PBool False,
                       ''message'' \<mapsto> Json (JScalar message),
                       ''succeeded'' \<mapsto> PBool succeeded))),
           store))"
  using assms by (simp add: get_course_task_log_status_def split: sum.splits)

lemma status_revoked:
  assumes "objects_get store tid = Inr e" and "task_state e \<notin> set READY_STATES"
    and "result_state (backend tid) = ''REVOKED''"
  shows "get_course_task_log_status backend tid store =
     (Inr (Some [''task_progress'' \<mapsto> Json (JObj [(''message'', SStr ''Task revoked before running'')]),
                 ''task_id'' \<mapsto> PStr tid,
                 ''task_state'' \<mapsto> PStr ''REVOKED'',
                 ''in_progress'' \<mapsto> PBool False,
                 ''message'' \<mapsto> PStr ''Task revoked before running'',
                 ''succeeded'' \<mapsto> PBool False]),
      save (e\<lparr>task_output := Some (JObj [(''message'', SStr ''Task revoked before running'')]),
                task_state := ''REVOKED'', task_id := Some tid\<rparr>) store)"
proof -
  have "get_task_completion_message
          (e\<lparr>task_output := Some (JObj [(''message'', SStr ''Task revoked before running'')]),
             task_state := ''REVOKED'', task_id := Some tid\<rparr>)
        = Inr (False, SStr ''Task revoked before running'')"
    by (simp add: get_task_completion_message_def bind_def)
  moreover have "''REVOKED'' \<in> set READY_STATES"
    by (simp add: READY_STATES_def)
  ultimately show ?thesis
    using assms update_revoked [of "AsyncResult backend tid" e store]
      not_ready_not_revoked [OF assms(2)]
    by (auto simp: get_course_task_log_status_def fun_eq_iff)
qed

lemma status_not_revoked:
  assumes "objects_get store tid = Inr e" and "task_state e \<notin> set READY_STATES"
    and "result_state (backend tid) \<noteq> ''REVOKED''"
  shows "snd (get_course_task_log_status backend tid store) = store"
proof -
  from update_not_revoked [of "AsyncResult backend tid" e store] assms(3)
  obtain r where r: "update_course_task_log e (AsyncResult backend tid) store = (r, store)"
    by auto
  show ?thesis
    using assms(1,2) r
    by (cases r) (auto simp: get_course_task_log_status_def Let_def split: sum.splits)
qed

lemma update_task_id:
  assumes "result_state tr \<noteq> ''REVOKED''"
    and "update_course_task_log e tr s = (Inr (e', out), s')"
  shows "task_id e' = (if result_state tr = task_state e then task_id e
                       else Some (result_task_id tr))"
proof -
  consider (progress) "result_state tr = ''PROGRESS''"
    | (success) "result_state tr = ''SUCCESS''"
    | (failure) "result_state tr = ''FAILURE''"
    | (other) "result_state tr \<noteq> ''PROGRESS''" "result_state tr \<noteq> ''SUCCESS''"
        "result_state tr \<noteq> ''FAILURE''"
    by blast
  then show ?thesis
  proof cases
    case progress
    with assms(2) show ?thesis
      by (auto simp: update_course_task_log_def Let_def bind_def split: sum.splits if_splits)
  next
    case success
    with assms(2) show ?thesis
      by (auto simp: update_course_task_log_def Let_def bind_def split: sum.splits if_splits)
  next
    case failure
    with assms(2) show ?thesis
      by (auto simp: update_course_task_log_def Let_def split: pyval.splits option.splits if_splits)
  next
    case other
    with assms show ?thesis
      by (auto simp: update_course_task_log_def Let_def split: if_splits)
  qed
qed

lemma status_from_update:
  assumes "objects_get store tid = Inr e" and "task_state e \<notin> set READY_STATES"
    and "update_course_task_log e (AsyncResult backend tid) store = (Inr (e', out), s')"
  shows "get_course_task_log_status backend tid store =
     (if task_state e' \<in> set READY_STATES then
        (case get_task_completion_message e' of
           Inl err \<Rightarrow> (Inl err, s')
         | Inr (succeeded, message) \<Rightarrow>
             (Inr (Some ((Map.empty ++ out)
                    (''task_id'' \<mapsto> (case task_id e' of None \<Rightarrow> PNone | Some t \<Rightarrow> PStr t),
                     ''task_state'' \<mapsto> PStr (task_state e'),
                     ''in_progress'' \<mapsto> PBool False,
                     ''message'' \<mapsto> Json (JScalar message),
                     ''succeeded'' \<mapsto> PBool succeeded))), s'))
      else
        (Inr (Some ((Map.empty ++ out)
               (''task_id'' \<mapsto> (case task_id e' of None \<Rightarrow> PNone | Some t \<Rightarrow> PStr t),
                ''task_state'' \<mapsto> PStr (task_state e'),
                ''in_progress'' \<mapsto> PBool True))), s'))"
  using assms by (simp add: get_course_task_log_status_def Let_def split: sum.splits)

lemma status_answer:
  assumes g: "objects_get store tid = Inr e" and n: "task_state e \<notin> set READY_STATES"
    and a: "fst (get_course_task_log_status backend tid store) = Inr (Some st)"
  shows "st ''task_state'' = Some (PStr (result_state (backend tid)))
       \<and> st ''task_id'' = Some (PStr tid)
       \<and> st ''in_progress'' = Some (PBool (result_state (backend tid) \<notin> set READY_STATES))"
proof (cases "result_state (backend tid) = ''REVOKED''")
  case True
  from status_revoked [of store tid e backend] g n True a
  have "st = [''task_progress'' \<mapsto> Json (JObj [(''message'', SStr ''Task revoked before running'')]),
              ''task_id'' \<mapsto> PStr tid,
              ''task_state'' \<mapsto> PStr ''REVOKED'',
              ''in_progress'' \<mapsto> PBool False,
              ''message'' \<mapsto> PStr ''Task revoked before running'',
              ''succeeded'' \<mapsto> PBool False]"
    by simp
  with True show ?thesis
    by (simp add: READY_STATES_def)
next
  case False
  then have nr: "result_state (AsyncResult backend tid) \<noteq> ''REVOKED''"
    by simp
  from update_not_revoked [OF nr, of e store]
  obtain r where r: "update_course_task_log e (AsyncResult backend tid) store = (r, store)"
    and p: "\<forall>e' out. r = Inr (e', out) \<longrightarrow> task_state e' = result_state (backend tid)"
    by auto
  have i: "task_id e = Some tid"
    by (rule objects_get_mem(2) [OF g])
  show ?thesis
  proof (cases r)
    case (Inl err)
    with g n r a show ?thesis
      by (simp add: get_course_task_log_status_def)
  next
    case (Inr q)
    obtain e' out where q: "q = (e', out)" by (cases q)
    have u: "update_course_task_log e (AsyncResult backend tid) store = (Inr (e', out), store)"
      using r Inr q by simp
    have s: "task_state e' = result_state (backend tid)"
      using p Inr q by simp
    have t: "task_id e' = Some tid"
      using update_task_id [OF nr u] i by simp
    note f = status_from_update [OF g n u]
    show ?thesis
    proof (cases "task_state e' \<in> set READY_STATES")
      case True
      show ?thesis
      proof (cases "get_task_completion_message e'")
        case (Inl err)
        with f True a show ?thesis by simp
      next
        case (Inr sm)
        obtain succeeded message where "sm = (succeeded, message)" by (cases sm)
        with f True Inr a have "st = (Map.empty ++ out)
                    (''task_id'' \<mapsto> PStr tid,
                     ''task_state'' \<mapsto> PStr (task_state e'),
                     ''in_progress'' \<mapsto> PBool False,
                     ''message'' \<mapsto> Json (JScalar message),
                     ''succeeded'' \<mapsto> PBool succeeded)"
          using t by simp
        with True s show ?thesis by simp
      qed
    next
      case False
      with f a t have "st = (Map.empty ++ out)
               (''task_id'' \<mapsto> PStr tid,
                ''task_state'' \<mapsto> PStr (task_state e'),
                ''in_progress'' \<mapsto> PBool True)"
        by simp
      with False s show ?thesis by simp
    qed
  qed
qed

subsection \<open>What a status request writes\<close>

text \<open>
  C3, as the code has it. A status request on an entry that has not finished writes the
  table exactly when the executor reports REVOKED: then the entry is saved with state
  REVOKED, the task id and the synthesized output before the request returns. For every
  other reported state, changed or not, the request writes nothing. Whenever the
  request returns a status, that status carries the state the executor reported, the
  task id that was asked for, and \<open>in_progress\<close> according to the reported state: they
  are read from the entry in memory, not from the table.
\<close>

theorem status_saves_only_revoked:
  assumes "objects_get store tid = Inr e" and "task_state e \<notin> set READY_STATES"
  shows "snd (get_course_task_log_status backend tid store) =
     (if result_state (backend tid) = ''REVOKED''
      then save (e\<lparr>task_output := Some (JObj [(''message'', SStr ''Task revoked before running'')]),
                    task_state := ''REVOKED'', task_id := Some tid\<rparr>) store
      else store)
   \<and> (\<forall>st. fst (get_course_task_log_status backend tid store) = Inr (Some st) \<longrightarrow>
          st ''task_state'' = Some (PStr (result_state (backend tid)))
        \<and> st ''task_id'' = Some (PStr tid)
        \<and> st ''in_progress'' = Some (PBool (result_state (backend tid) \<notin> set READY_STATES)))"
proof (intro conjI allI impI)
  show "snd (get_course_task_log_status backend tid store) =
     (if result_state (backend tid) = ''REVOKED''
      then save (e\<lparr>task_output := Some (JObj [(''message'', SStr ''Task revoked before running'')]),
                    task_state := ''REVOKED'', task_id := Some tid\<rparr>) store
      else store)"
  proof (cases "result_state (backend tid) = ''REVOKED''")
    case True
    with status_revoked [of store tid e backend] assms show ?thesis by simp
  next
    case False
    with status_not_revoked [of store tid e backend] assms show ?thesis by simp
  qed
next
  fix st
  assume a: "fst (get_course_task_log_status backend tid store) = Inr (Some st)"
  note r = status_answer [OF assms a]
  from r show "st ''task_state'' = Some (PStr (result_state (backend tid)))" by simp
  from r show "st ''task_id'' = Some (PStr tid)" by simp
  from r show "st ''in_progress'' = Some (PBool (result_state (backend tid) \<notin> set READY_STATES))"
    by simp
qed

theorem status_saves_only_revoked_witness:
  "snd (get_course_task_log_status revoked_backend ''t1'' [pending_entry]) =
     [pending_entry\<lparr>task_output := Some (JObj [(''message'', SStr ''Task revoked before running'')]),
                    task_state := ''REVOKED''\<rparr>]
   \<and> snd (get_course_task_log_status pending_backend ''t1'' [pending_entry]) = [pending_entry]
   \<and> snd (get_course_task_log_status success_backend ''t1'' [pending_entry]) = [pending_entry]
   \<and> (\<exists>st. fst (get_course_task_log_status success_backend ''t1'' [pending_entry]) = Inr (Some st)
          \<and> st ''task_state'' = Some (PStr ''SUCCESS'')
          \<and> st ''task_id'' = Some (PStr ''t1'')
          \<and> st ''in_progress'' = Some (PBool False))"
proof -
  have g: "objects_get [pending_entry] ''t1'' = Inr pending_entry"
    and n: "task_state pending_entry \<notin> set READY_STATES"
    by (simp_all add: pending_entry_def done_entry_def objects_get_def READY_STATES_def)
  have "\<exists>st. fst (get_course_task_log_status success_backend ''t1'' [pending_entry]) = Inr (Some st)"
    by (simp add: get_course_task_log_status_def objects_get_def pending_entry_def done_entry_def
          READY_STATES_def AsyncResult_def success_backend_def update_course_task_log_def
          bind_def Let_def rescored_def get_task_completion_message_def py_format_def)
  then obtain st where
    st: "fst (get_course_task_log_status success_backend ''t1'' [pending_entry]) = Inr (Some st)"
    by blast
  have "st ''task_state'' = Some (PStr ''SUCCESS'') \<and> st ''task_id'' = Some (PStr ''t1'')
        \<and> st ''in_progress'' = Some (PBool False)"
    using status_saves_only_revoked [OF g n, of success_backend] st
    by (simp add: success_backend_def READY_STATES_def)
  with st have e: "\<exists>st. fst (get_course_task_log_status success_backend ''t1'' [pending_entry])
                        = Inr (Some st)
          \<and> st ''task_state'' = Some (PStr ''SUCCESS'')
          \<and> st ''task_id'' = Some (PStr ''t1'')
          \<and> st ''in_progress'' = Some (PBool False)"
    by blast
  have "snd (get_course_task_log_status revoked_backend ''t1'' [pending_entry]) =
     [pending_entry\<lparr>task_output := Some (JObj [(''message'', SStr ''Task revoked before running'')]),
                    task_state := ''REVOKED''\<rparr>]
   \<and> snd (get_course_task_log_status pending_backend ''t1'' [pending_entry]) = [pending_entry]
   \<and> snd (get_course_task_log_status success_backend ''t1'' [pending_entry]) = [pending_entry]"
    using status_saves_only_revoked [OF g n, of revoked_backend]
      status_saves_only_revoked [OF g n, of pending_backend]
      status_saves_only_revoked [OF g n, of success_backend]
    by (simp add: revoked_backend_def pending_backend_def success_backend_def pending_entry_def
          done_entry_def save_def)
  with e show ?thesis by blast
qed

text \<open>
  The claim as written fails: the stored state is PENDING, the executor reports SUCCESS,
  the answer carries SUCCESS, and the table still holds the PENDING row afterwards.
\<close>

theorem status_change_not_saved:
  "get_course_task_log_status success_backend ''t1'' [pending_entry] =
     (Inr (Some [''task_progress'' \<mapsto> Json (rescored 5 5 5),
                 ''task_id'' \<mapsto> PStr ''t1'',
                 ''task_state'' \<mapsto> PStr ''SUCCESS'',
                 ''in_progress'' \<mapsto> PBool False,
                 ''message'' \<mapsto> PStr ''Problem successfully rescored for 5 students'',
                 ''succeeded'' \<mapsto> PBool True]),
      [pending_entry])
   \<and> task_state pending_entry = ''PENDING''"
  by (simp add: get_course_task_log_status_def objects_get_def pending_entry_def done_entry_def
        READY_STATES_def AsyncResult_def success_backend_def update_course_task_log_def
        bind_def Let_def rescored_def get_task_completion_message_def py_format_def
        show_int_def show_nat.simps)

subsection \<open>Revoked tasks\<close>

text \<open>
  C5, as the code has it. When the executor reports REVOKED for an entry that has not
  finished, the status request itself stores the output with the message
  "Task revoked before running" and answers not in progress, not succeeded, with that
  message; every later status request for the task id gives the same answer, whatever
  the executor then reports.
\<close>

theorem revoked_status_persisted:
  assumes "distinct (map entry_id store)"
    and "objects_get store tid = Inr e"
    and "task_state e \<notin> set READY_STATES"
    and "result_state (backend tid) = ''REVOKED''"
  shows "get_course_task_log_status backend tid store =
     (Inr (Some [''task_progress'' \<mapsto> Json (JObj [(''message'', SStr ''Task revoked before running'')]),
                 ''task_id'' \<mapsto> PStr tid,
                 ''task_state'' \<mapsto> PStr ''REVOKED'',
                 ''in_progress'' \<mapsto> PBool False,
                 ''message'' \<mapsto> PStr ''Task revoked before running'',
                 ''succeeded'' \<mapsto> PBool False]),
      save (e\<lparr>task_output := Some (JObj [(''message'', SStr ''Task revoked before running'')]),
                task_state := ''REVOKED'', task_id := Some tid\<rparr>) store)
   \<and> (\<forall>backend'.
        get_course_task_log_status backend' tid
           (save (e\<lparr>task_output := Some (JObj [(''message'', SStr ''Task revoked before running'')]),
                     task_state := ''REVOKED'', task_id := Some tid\<rparr>) store) =
        (Inr (Some [''task_progress'' \<mapsto> Json (JObj [(''message'', SStr ''Task revoked before running'')]),
                    ''task_id'' \<mapsto> PStr tid,
                    ''task_state'' \<mapsto> PStr ''REVOKED'',
                    ''in_progress'' \<mapsto> PBool False,
                    ''message'' \<mapsto> PStr ''Task revoked before running'',
                    ''succeeded'' \<mapsto> PBool False]),
         save (e\<lparr>task_output := Some (JObj [(''message'', SStr ''Task revoked before running'')]),
                   task_state := ''REVOKED'', task_id := Some tid\<rparr>) store))"
proof (intro conjI allI)
  let ?e = "e\<lparr>task_output := Some (JObj [(''message'', SStr ''Task revoked before running'')]),
               task_state := ''REVOKED'', task_id := Some tid\<rparr>"
  show "get_course_task_log_status backend tid store =
     (Inr (Some [''task_progress'' \<mapsto> Json (JObj [(''message'', SStr ''Task revoked before running'')]),
                 ''task_id'' \<mapsto> PStr tid,
                 ''task_state'' \<mapsto> PStr ''REVOKED'',
                 ''in_progress'' \<mapsto> PBool False,
                 ''message'' \<mapsto> PStr ''Task revoked before running'',
                 ''succeeded'' \<mapsto> PBool False]),
      save ?e store)"
    using status_revoked [of store tid e backend] assms(2,3,4) by simp
  fix backend'
  have g: "objects_get (save ?e store) tid = Inr ?e"
    by (rule objects_get_save [OF assms(1,2)]) simp_all
  have t: "task_state ?e \<in> set READY_STATES"
    by (simp add: READY_STATES_def)
  have m: "get_task_completion_message ?e = Inr (False, SStr ''Task revoked before running'')"
    by (simp add: get_task_completion_message_def bind_def)
  show "get_course_task_log_status backend' tid (save ?e store) =
        (Inr (Some [''task_progress'' \<mapsto> Json (JObj [(''message'', SStr ''Task revoked before running'')]),
                    ''task_id'' \<mapsto> PStr tid,
                    ''task_state'' \<mapsto> PStr ''REVOKED'',
                    ''in_progress'' \<mapsto> PBool False,
                    ''message'' \<mapsto> PStr ''Task revoked before running'',
                    ''succeeded'' \<mapsto> PBool False]),
         save ?e store)"
    using status_terminal [OF g t, of backend'] m by simp
qed

theorem revoked_status_persisted_witness:
  "get_course_task_log_status revoked_backend ''t1'' [pending_entry] =
     (Inr (Some [''task_progress'' \<mapsto> Json (JObj [(''message'', SStr ''Task revoked before running'')]),
                 ''task_id'' \<mapsto> PStr ''t1'',
                 ''task_state'' \<mapsto> PStr ''REVOKED'',
                 ''in_progress'' \<mapsto> PBool False,
                 ''message'' \<mapsto> PStr ''Task revoked before running'',
                 ''succeeded'' \<mapsto> PBool False]),
      [pending_entry\<lparr>task_output := Some (JObj [(''message'', SStr ''Task revoked before running'')]),
                     task_state := ''REVOKED''\<rparr>])
   \<and> get_course_task_log_status success_backend ''t1''
       [pending_entry\<lparr>task_output := Some (JObj [(''message'', SStr ''Task revoked before running'')]),
                      task_state := ''REVOKED''\<rparr>] =
     (Inr (Some [''task_progress'' \<mapsto> Json (JObj [(''message'', SStr ''Task revoked before running'')]),
                 ''task_id'' \<mapsto> PStr ''t1'',
                 ''task_state'' \<mapsto> PStr ''REVOKED'',
                 ''in_progress'' \<mapsto> PBool False,
                 ''message'' \<mapsto> PStr ''Task revoked before running'',
                 ''succeeded'' \<mapsto> PBool False]),
      [pending_entry\<lparr>task_output := Some (JObj [(''message'', SStr ''Task revoked before running'')]),
                     task_state := ''REVOKED''\<rparr>])"
proof -
  have d: "distinct (map entry_id [pending_entry])"
    and g: "objects_get [pending_entry] ''t1'' = Inr pending_entry"
    and n: "task_state pending_entry \<notin> set READY_STATES"
    and r: "result_state (revoked_backend ''t1'') = ''REVOKED''"
    by (simp_all add: pending_entry_def done_entry_def objects_get_def READY_STATES_def
          revoked_backend_def)
  have s: "save (pending_entry\<lparr>task_output := Some (JObj [(''message'', SStr ''Task revoked before running'')]),
                              task_state := ''REVOKED'', task_id := Some ''t1''\<rparr>) [pending_entry]
           = [pending_entry\<lparr>task_output := Some (JObj [(''message'', SStr ''Task revoked before running'')]),
                            task_state := ''REVOKED''\<rparr>]"
    by (simp add: save_def pending_entry_def done_entry_def)
  from revoked_status_persisted [OF d g n, of revoked_backend, OF r] show ?thesis
    unfolding s by blast
qed

text \<open>
  The claim as written fails on the wording of the message: the code's message is
  "Task revoked before running".
\<close>

theorem revoked_message_wording:
  "fst (get_course_task_log_status revoked_backend ''t1'' [pending_entry]) =
     Inr (Some [''task_progress'' \<mapsto> Json (JObj [(''message'', SStr ''Task revoked before running'')]),
                ''task_id'' \<mapsto> PStr ''t1'',
                ''task_state'' \<mapsto> PStr ''REVOKED'',
                ''in_progress'' \<mapsto> PBool False,
                ''message'' \<mapsto> PStr ''Task revoked before running'',
                ''succeeded'' \<mapsto> PBool False])
   \<and> PStr ''Task revoked before running'' \<noteq> PStr ''Job revoked before running''"
  by (simp add: get_course_task_log_status_def objects_get_def pending_entry_def done_entry_def
        READY_STATES_def AsyncResult_def revoked_backend_def update_course_task_log_def
        Let_def get_task_completion_message_def bind_def fun_eq_iff)

subsection \<open>A failed dispatch\<close>

text \<open>
  C8. When the reservation has succeeded and \<^verbatim>\<open>apply_async\<close> raises, \<^verbatim>\<open>_submit_task\<close>
  raises the same exception, and the table is the one the reservation left: the old
  rows and the reserved row, in state QUEUING and without a task id.
\<close>

theorem dispatch_failure_leaves_queuing:
  assumes "reserve_task course_id' task_type' task_key' task_input' (request_user request) store
             = (Inr course_task_log, store')"
    and "get_xmodule_instance_args get_xqueue_callback_url_prefix request = Inr xmodule_instance_args'"
    and "apply_async (entry_id course_task_log, course_id', task_input', xmodule_instance_args')
           = Inl err"
  shows "submit_task get_xqueue_callback_url_prefix request task_type' apply_async course_id'
           task_input' task_key' store = (Inl err, store')
       \<and> store' = store @ [course_task_log]
       \<and> task_state course_task_log = ''QUEUING''
       \<and> task_id course_task_log = None"
  using assms
  by (auto simp: submit_task_def reserve_task_def objects_create_def Let_def split: if_splits)

theorem dispatch_failure_leaves_queuing_witness:
  "submit_task sample_prefix sample_request ''rescore_problem'' failing_dispatch ''c''
     (JObj [(''problem_url'', SStr ''p'')]) ''_p'' [done_entry]
     = (Inl (Raised ''ConnectionError''), [done_entry, queued_entry])
   \<and> task_state queued_entry = ''QUEUING'' \<and> task_id queued_entry = None"
proof -
  have r: "reserve_task ''c'' ''rescore_problem'' ''_p'' (JObj [(''problem_url'', SStr ''p'')])
             (request_user sample_request) [done_entry] = (Inr queued_entry, [done_entry, queued_entry])"
    by (simp add: reserve_task_def task_is_running_def READY_STATES_def objects_create_def
          done_entry_def queued_entry_def sample_request_def Let_def)
  have x: "get_xmodule_instance_args sample_prefix sample_request =
             Inr \<lparr>xqueue_callback_url_prefix = ''https://lms'',
                  request_info = [(''username'', ''S7''), (''ip'', ''10.0.0.1''), (''agent'', []),
                                  (''host'', ''lms'')]\<rparr>"
    by (simp add: get_xmodule_instance_args_def sample_prefix_def sample_request_def
          sample_user_def bind_def)
  have a: "failing_dispatch
             (entry_id queued_entry, ''c'', JObj [(''problem_url'', SStr ''p'')],
              \<lparr>xqueue_callback_url_prefix = ''https://lms'',
               request_info = [(''username'', ''S7''), (''ip'', ''10.0.0.1''), (''agent'', []),
                               (''host'', ''lms'')]\<rparr>)
           = Inl (Raised ''ConnectionError'')"
    by (simp add: failing_dispatch_def)
  from dispatch_failure_leaves_queuing [where apply_async = failing_dispatch, OF r x a] show ?thesis
    by simp
qed

subsection \<open>Finished entries\<close>

lemma save_inv:
  assumes "distinct (map entry_id s)" and "e \<in> set s" and "entry_id x \<noteq> entry_id e"
  shows "distinct (map entry_id (save x s)) \<and> e \<in> set (save x s)"
  using assms by (simp add: save_distinct save_keeps)

lemma status_inv:
  assumes d: "distinct (map entry_id s)" and e: "e \<in> set s"
    and t: "task_state e \<in> set READY_STATES"
  shows "distinct (map entry_id (snd (get_course_task_log_status backend tid s)))
       \<and> e \<in> set (snd (get_course_task_log_status backend tid s))"
proof (cases "objects_get s tid")
  case (Inl err)
  then show ?thesis
    using d e by (simp add: get_course_task_log_status_def)
next
  case (Inr f)
  show ?thesis
  proof (cases "task_state f \<in> set READY_STATES")
    case True
    from status_terminal [OF Inr True, of backend]
    have "snd (get_course_task_log_status backend tid s) = s"
      by (simp split: sum.splits prod.splits)
    with d e show ?thesis by simp
  next
    case False
    show ?thesis
    proof (cases "result_state (backend tid) = ''REVOKED''")
      case True
      have "f \<in> set s" by (rule objects_get_mem(1) [OF Inr])
      moreover have "e \<noteq> f" using t False by auto
      ultimately have "entry_id f \<noteq> entry_id e"
        using distinct_ids_neq [OF d, of f e] e by auto
      then have "entry_id (f\<lparr>task_output := Some (JObj [(''message'', SStr ''Task revoked before running'')]),
                              task_state := ''REVOKED'', task_id := Some tid\<rparr>) \<noteq> entry_id e"
        by simp
      from save_inv [OF d e this] status_revoked [of s tid f backend] Inr False True
      show ?thesis by simp
    next
      case nr: False
      from status_not_revoked [of s tid f backend] Inr False nr d e
      show ?thesis by simp
    qed
  qed
qed

lemma update_task_inv:
  assumes d: "distinct (map entry_id s)" and e: "e \<in> set s"
    and n: "entry_id n \<noteq> entry_id e"
  shows "distinct (map entry_id (snd (update_task n tr s))) \<and> e \<in> set (snd (update_task n tr s))"
proof -
  from update_shape [of n tr s] obtain r s' where
    u: "update_course_task_log n tr s = (r, s')"
    and s': "s' = s \<or> (\<exists>x. entry_id x = entry_id n \<and> s' = save x s)"
    and r: "\<forall>e' out. r = Inr (e', out) \<longrightarrow> entry_id e' = entry_id n"
    by blast
  have i: "distinct (map entry_id s') \<and> e \<in> set s'"
    using s' save_inv [OF d e] d e n by auto
  show ?thesis
  proof (cases r)
    case (Inl err)
    with u i show ?thesis by (simp add: update_task_def)
  next
    case (Inr p)
    obtain e' out where p: "p = (e', out)" by (cases p)
    with r Inr have "entry_id e' \<noteq> entry_id e" using n by simp
    from save_inv [OF _ _ this, of s'] i u Inr p show ?thesis
      by (simp add: update_task_def)
  qed
qed

lemma submit_inv:
  assumes d: "distinct (map entry_id s)" and e: "e \<in> set s"
  shows "distinct (map entry_id (snd (submit_task xq request ttype apply_async cid tinput tkey s)))
       \<and> e \<in> set (snd (submit_task xq request ttype apply_async cid tinput tkey s))"
proof (cases "task_is_running cid ttype tkey s")
  case True
  with d e show ?thesis by (simp add: submit_task_def reserve_task_def)
next
  case False
  obtain n where n: "objects_create cid ttype tkey tinput ''QUEUING'' (request_user request) s
                       = (n, s @ [n])"
    and id: "entry_id n = Suc (fold max (map entry_id s) 0)"
    by (simp add: objects_create_def Let_def)
  have fresh: "entry_id n \<notin> set (map entry_id s)"
    unfolding id by (rule fresh_entry_id)
  then have ne: "entry_id n \<noteq> entry_id e"
    using e by auto
  have d1: "distinct (map entry_id (s @ [n]))" and e1: "e \<in> set (s @ [n])"
    using d e fresh by simp_all
  have r: "reserve_task cid ttype tkey tinput (request_user request) s = (Inr n, s @ [n])"
    using False n by (simp add: reserve_task_def)
  show ?thesis
    using r d1 e1 update_task_inv [OF d1 e1 ne]
    by (simp add: submit_task_def split: sum.splits)
qed

lemma module_step_inv:
  assumes "module_step s s'" and "distinct (map entry_id s)" and "e \<in> set s"
    and "task_state e \<in> set READY_STATES"
  shows "distinct (map entry_id s') \<and> e \<in> set s'"
  using assms
proof (induction rule: module_step.induct)
  case (submit xq request ttype apply_async cid tinput tkey store store')
  with submit_inv [of store e xq request ttype apply_async cid tinput tkey] show ?case by auto
next
  case (status backend tid store store')
  with status_inv [of store e backend tid] show ?case by auto
qed

lemma module_steps_inv:
  assumes "module_step\<^sup>*\<^sup>* s s'" and "distinct (map entry_id s)" and "e \<in> set s"
    and "task_state e \<in> set READY_STATES"
  shows "distinct (map entry_id s') \<and> e \<in> set s'"
  using assms
proof (induction rule: rtranclp_induct)
  case base
  then show ?case by simp
next
  case (step y z)
  then show ?case using module_step_inv [of y z e] by blast
qed

text \<open>
  C4, as the code has it. For an entry in state SUCCESS, FAILURE or REVOKED, in a table
  whose rows have distinct identities: a status request that finds the entry gives the
  same result whatever the executor's backend holds, writes nothing, and, whenever
  \<^verbatim>\<open>get_task_completion_message\<close> returns a pair for the entry, answers from the
  stored output with \<open>in_progress\<close> false. After any sequence of submissions and
  status requests the entry is still in the table, unchanged.
\<close>

theorem terminal_frozen:
  assumes "distinct (map entry_id store)" and "e \<in> set store"
    and "task_state e \<in> set READY_STATES"
  shows "(\<forall>backend backend' tid. objects_get store tid = Inr e \<longrightarrow>
            get_course_task_log_status backend tid store
              = get_course_task_log_status backend' tid store
          \<and> snd (get_course_task_log_status backend tid store) = store
          \<and> (\<forall>succeeded message.
                get_task_completion_message e = Inr (succeeded, message) \<longrightarrow>
                fst (get_course_task_log_status backend tid store) =
                  Inr (Some ((case task_output e of
                                None \<Rightarrow> Map.empty
                              | Some text \<Rightarrow> [''task_progress'' \<mapsto> Json text])
                             (''task_id'' \<mapsto> (case task_id e of None \<Rightarrow> PNone | Some t \<Rightarrow> PStr t),
                              ''task_state'' \<mapsto> PStr (task_state e),
                              ''in_progress'' \<mapsto> PBool False,
                              ''message'' \<mapsto> Json (JScalar message),
                              ''succeeded'' \<mapsto> PBool succeeded)))))
       \<and> (\<forall>store'. module_step\<^sup>*\<^sup>* store store' \<longrightarrow> e \<in> set store')"
proof (intro conjI allI impI)
  fix backend backend' :: "string \<Rightarrow> task_result" and tid
  assume g: "objects_get store tid = Inr e"
  show "get_course_task_log_status backend tid store
          = get_course_task_log_status backend' tid store"
    by (simp only: status_terminal [OF g assms(3)])
  show "snd (get_course_task_log_status backend tid store) = store"
    by (simp add: status_terminal [OF g assms(3)] split: sum.splits prod.splits)
  fix succeeded message
  assume "get_task_completion_message e = Inr (succeeded, message)"
  then show "fst (get_course_task_log_status backend tid store) =
                  Inr (Some ((case task_output e of
                                None \<Rightarrow> Map.empty
                              | Some text \<Rightarrow> [''task_progress'' \<mapsto> Json text])
                             (''task_id'' \<mapsto> (case task_id e of None \<Rightarrow> PNone | Some t \<Rightarrow> PStr t),
                              ''task_state'' \<mapsto> PStr (task_state e),
                              ''in_progress'' \<mapsto> PBool False,
                              ''message'' \<mapsto> Json (JScalar message),
                              ''succeeded'' \<mapsto> PBool succeeded)))"
    by (simp add: status_terminal [OF g assms(3)])
next
  fix store'
  assume "module_step\<^sup>*\<^sup>* store store'"
  from module_steps_inv [OF this assms] show "e \<in> set store'" by simp
qed

theorem terminal_frozen_witness:
  "get_course_task_log_status pending_backend ''t1'' [bulk_success_entry] =
     (Inr (Some [''task_progress'' \<mapsto> Json (rescored 5 5 5),
                 ''task_id'' \<mapsto> PStr ''t1'',
                 ''task_state'' \<mapsto> PStr ''SUCCESS'',
                 ''in_progress'' \<mapsto> PBool False,
                 ''message'' \<mapsto> PStr ''Problem successfully rescored for 5 students'',
                 ''succeeded'' \<mapsto> PBool True]),
      [bulk_success_entry])
   \<and> bulk_success_entry \<in> set (snd (submit_task sample_prefix sample_request ''rescore_problem''
         failing_dispatch ''c'' (JObj [(''problem_url'', SStr ''p'')]) ''_p'' [bulk_success_entry]))"
proof -
  have d: "distinct (map entry_id [bulk_success_entry])"
    and m: "bulk_success_entry \<in> set [bulk_success_entry]"
    and t: "task_state bulk_success_entry \<in> set READY_STATES"
    and g: "objects_get [bulk_success_entry] ''t1'' = Inr bulk_success_entry"
    and o: "task_output bulk_success_entry = Some (rescored 5 5 5)"
    and i: "task_id bulk_success_entry = Some ''t1''"
    and s: "task_state bulk_success_entry = ''SUCCESS''"
    by (simp_all add: bulk_success_entry_def done_entry_def READY_STATES_def objects_get_def)
  have c: "get_task_completion_message bulk_success_entry =
             Inr (True, SStr ''Problem successfully rescored for 5 students'')"
    by (simp add: bulk_success_entry_def done_entry_def rescored_def
          get_task_completion_message_def bind_def py_format_def show_int_def show_nat.simps)
  have r: "module_step\<^sup>*\<^sup>* [bulk_success_entry]
             (snd (submit_task sample_prefix sample_request ''rescore_problem''
                failing_dispatch ''c'' (JObj [(''problem_url'', SStr ''p'')]) ''_p''
                [bulk_success_entry]))"
    by (rule r_into_rtranclp) (rule module_step.submit [OF refl])
  note f = terminal_frozen [OF d m t]
  from f g have a: "snd (get_course_task_log_status pending_backend ''t1'' [bulk_success_entry])
                      = [bulk_success_entry]"
    by blast
  from f g c have b: "fst (get_course_task_log_status pending_backend ''t1'' [bulk_success_entry]) =
      Inr (Some ((case task_output bulk_success_entry of
                    None \<Rightarrow> Map.empty
                  | Some text \<Rightarrow> [''task_progress'' \<mapsto> Json text])
                 (''task_id'' \<mapsto> (case task_id bulk_success_entry of None \<Rightarrow> PNone | Some t \<Rightarrow> PStr t),
                  ''task_state'' \<mapsto> PStr (task_state bulk_success_entry),
                  ''in_progress'' \<mapsto> PBool False,
                  ''message'' \<mapsto> PStr ''Problem successfully rescored for 5 students'',
                  ''succeeded'' \<mapsto> PBool True)))"
    by blast
  from f r have k: "bulk_success_entry \<in> set (snd (submit_task sample_prefix sample_request
         ''rescore_problem'' failing_dispatch ''c'' (JObj [(''problem_url'', SStr ''p'')]) ''_p''
         [bulk_success_entry]))"
    by blast
  have "get_course_task_log_status pending_backend ''t1'' [bulk_success_entry] =
          (fst (get_course_task_log_status pending_backend ''t1'' [bulk_success_entry]),
           snd (get_course_task_log_status pending_backend ''t1'' [bulk_success_entry]))"
    by simp
  with a b k show ?thesis
    by (simp only: o i s option.case)
qed

text \<open>
  The claim as written fails where no answer is built: for a finished task that
  returned nothing the completion message cannot be read from the stored output, and
  the status request raises instead of reporting.
\<close>

theorem terminal_status_raises:
  "get_course_task_log_status pending_backend ''t1'' [null_output_entry]
     = (Inl TypeError, [null_output_entry])
   \<and> task_state null_output_entry = ''SUCCESS''"
  by (simp add: get_course_task_log_status_def objects_get_def null_output_entry_def
        done_entry_def READY_STATES_def get_task_completion_message_def bind_def)

end
